theory Spec2Isabelle
  imports Complex_Main "HOL-Library.Sublist" "HOL-Library.AList"
begin

section \<open>Python strings and floats\<close>

text \<open>
  Strings are \<open>char list\<close>s. \<open>lower\<close> is Python's \<^verbatim>\<open>str.lower()\<close> on ASCII text:
  the letters \<open>A\<close>..\<open>Z\<close> (codes 65..90) move to \<open>a\<close>..\<open>z\<close>, every other character stays.
  \<open>contains kw s\<close> is \<^verbatim>\<open>kw in s\<close>, \<open>prefix p s\<close> is \<^verbatim>\<open>s.startswith(p)\<close> and
  \<open>suffix p s\<close> is \<^verbatim>\<open>s.endswith(p)\<close>.

  The risk values are Python floats written as short decimals; they are read here as the
  exact decimal numbers (type \<open>real\<close>), so \<open>min\<close>, \<open>max\<close>, \<open>+\<close> and \<open><\<close> are the
  exact operations.
\<close>

definition lower_char :: "char \<Rightarrow> char" where
  "lower_char c =
     (let n = (of_char c :: nat)
      in if 65 \<le> n \<and> n \<le> 90 then char_of (n + 32) else c)"

definition lower :: "string \<Rightarrow> string" where
  "lower s = map lower_char s"

fun contains :: "string \<Rightarrow> string \<Rightarrow> bool" where
  "contains kw [] = (kw = [])"
| "contains kw (c # cs) = (prefix kw (c # cs) \<or> contains kw cs)"

text \<open>\<^verbatim>\<open>any(kw in s for kw in kws)\<close>\<close>

definition any_kw_in :: "string list \<Rightarrow> string \<Rightarrow> bool" where
  "any_kw_in kws s = list_ex (\<lambda>kw. contains kw s) kws"

section \<open>chad\_agents/policies/autonomy.py\<close>

datatype AutonomyLevel = L0_Ask | L1_Draft | L2_ExecuteNotify | L3_ExecuteSilent

subsection \<open>Tool risk\<close>

text \<open>The name classification of \<^verbatim>\<open>calculate_tool_risk\<close>: the first \<^verbatim>\<open>if/elif\<close> chain,
  starting from the default \<open>0.2\<close>.\<close>

definition tool_name_risk :: "string \<Rightarrow> real" where
  "tool_name_risk tool_lower =
     (if any_kw_in [''delete'', ''remove'', ''drop'', ''destroy'', ''reset''] tool_lower then 0.7
      else if any_kw_in [''admin'', ''configure'', ''setup'', ''migrate''] tool_lower then 0.9
      else if any_kw_in [''create'', ''update'', ''write'', ''send'', ''post'', ''put''] tool_lower
        then 0.3
      else if any_kw_in [''read'', ''get'', ''fetch'', ''search'', ''list'', ''query''] tool_lower
        then 0.1
      else if prefix ''local.'' tool_lower then 0.05
      else 0.2)"

text \<open>The second chain of \<^verbatim>\<open>calculate_tool_risk\<close>: the declared capabilities can only
  raise the risk.\<close>

definition capability_risk :: "string list \<Rightarrow> real \<Rightarrow> real" where
  "capability_risk capabilities risk =
     (if ''admin'' \<in> set capabilities then max risk 0.9
      else if ''delete'' \<in> set capabilities then max risk 0.7
      else if ''write'' \<in> set capabilities then max risk 0.3
      else if ''read'' \<in> set capabilities then max risk 0.1
      else risk)"

definition calculate_tool_risk :: "string \<Rightarrow> string list \<Rightarrow> real" where
  "calculate_tool_risk tool_name capabilities =
     (let tool_lower = lower tool_name;
          risk = tool_name_risk tool_lower;
          risk = capability_risk capabilities risk
      in min risk 1.0)"

subsection \<open>Scope risk\<close>

text \<open>One iteration of the loop of \<^verbatim>\<open>calculate_scope_risk\<close>: what one scope adds.\<close>

definition scope_risk_step :: "string \<Rightarrow> real" where
  "scope_risk_step scope =
     (if scope = ''*'' \<or> prefix ''admin.'' scope then 0.8
      else if contains ''.write'' scope \<or> contains '':write'' scope then 0.4
      else if prefix ''local.'' scope then 0.05
      else if prefix ''github.'' scope then 0.3
      else if prefix ''notion.'' scope \<or> prefix ''google.'' scope then 0.2
      else if contains ''.read'' scope \<or> contains '':read'' scope then 0.1
      else 0.15)"

text \<open>The loop \<^verbatim>\<open>for scope in scopes: risk += ...\<close> with its accumulator.\<close>

fun scope_risk_loop :: "string list \<Rightarrow> real \<Rightarrow> real" where
  "scope_risk_loop [] risk = risk"
| "scope_risk_loop (scope # scopes) risk = scope_risk_loop scopes (risk + scope_risk_step scope)"

definition calculate_scope_risk :: "string list \<Rightarrow> real" where
  "calculate_scope_risk scopes = min (scope_risk_loop scopes 0.0) 1.0"

subsection \<open>Autonomy level helpers\<close>

definition requires_step_approval :: "AutonomyLevel \<Rightarrow> bool" where
  "requires_step_approval autonomy_level = (autonomy_level = L0_Ask)"

definition requires_plan_approval :: "AutonomyLevel \<Rightarrow> bool" where
  "requires_plan_approval autonomy_level = (autonomy_level \<in> set [L0_Ask, L1_Draft])"

subsection \<open>User trust level\<close>

record User =
  user_id :: string
  scopes :: "string list"

text \<open>\<^verbatim>\<open>get_user_trust_level\<close> is called with a \<open>User\<close>, so the \<^verbatim>\<open>isinstance\<close> branch
  reads \<open>user.scopes\<close>.\<close>

definition get_user_trust_level :: "User \<Rightarrow> real" where
  "get_user_trust_level user =
     (let scopes = scopes user
      in if ''*'' \<in> set scopes then 1.0
         else let wildcard_scopes = filter (\<lambda>s. suffix ''.*'' s \<or> suffix '':*'' s) scopes
              in if length wildcard_scopes \<ge> 3 then 0.8
                 else if length scopes \<ge> 5 then 0.7
                 else if length scopes \<ge> 3 then 0.5
                 else if length scopes \<ge> 1 then 0.3
                 else 0.0)"

section \<open>chad\_agents/policies/scopes.py\<close>

text \<open>
  Modelled from the spec: \<^verbatim>\<open>scope_matches\<close> and \<^verbatim>\<open>check_scopes\<close> of
  \<^verbatim>\<open>chad_agents/policies/scopes.py\<close>, which \<^verbatim>\<open>policy_guard.py\<close> imports. The spec:
  a required scope is satisfied if the principal holds it exactly, holds a wildcard
  ancestor (\<^verbatim>\<open>svc.*\<close> satisfies \<^verbatim>\<open>svc.write\<close>), or holds the global wildcard \<^verbatim>\<open>*\<close>.
  A granted scope \<^verbatim>\<open>svc.*\<close> is an ancestor of every scope that starts with \<^verbatim>\<open>svc.\<close>.
\<close>

definition scope_matches :: "string \<Rightarrow> string \<Rightarrow> bool" where
  "scope_matches required granted =
     (granted = ''*'' \<or> required = granted
      \<or> (suffix ''.*'' granted \<and> prefix (butlast granted) required))"

text \<open>
  Modelled from the spec: \<^verbatim>\<open>check_scopes\<close> is true when all required scopes are
  satisfied (the docstring of \<^verbatim>\<open>check_scope_permissions\<close> says the same).
\<close>

definition check_scopes :: "string list \<Rightarrow> string list \<Rightarrow> bool" where
  "check_scopes required_scopes user_scopes =
     list_all (\<lambda>required. list_ex (scope_matches required) user_scopes) required_scopes"

section \<open>chad\_agents/policies/policy\_guard.py\<close>

record plan_step =
  tool :: string
  input :: "(string \<times> string) list"

record ExecutionPlan =
  steps :: "plan_step list"
  tools_used :: "string list"
  required_scopes :: "string list"

text \<open>The fields of \<^verbatim>\<open>PolicyValidationResult\<close> carry the prefix \<open>res_\<close>, since
  \<open>requires_approval\<close> and \<open>required_scopes\<close> are also a method and a field of the plan; the
  \<^verbatim>\<open>context\<close> of a request is \<open>request_context\<close>.\<close>

record PolicyValidationResult =
  res_allowed :: bool
  res_autonomy_level :: AutonomyLevel
  res_risk_score :: real
  res_requires_approval :: bool
  res_required_scopes :: "string list"
  res_missing_scopes :: "string list"
  res_reason :: "string option"

record ActRequest =
  actor :: string
  goal :: string
  request_context :: "(string \<times> string) list"
  dry_run :: bool

text \<open>
  \<^verbatim>\<open>PolicyGuard.__init__\<close> reads three thresholds from the settings object with
  \<^verbatim>\<open>getattr(settings, name, default)\<close>. The settings are the attributes that are set.
\<close>

record PolicyGuard =
  risk_threshold_l3 :: real
  risk_threshold_l2 :: real
  risk_threshold_l1 :: real

definition getattr :: "(string \<rightharpoonup> real) \<Rightarrow> string \<Rightarrow> real \<Rightarrow> real" where
  "getattr settings name dflt = (case settings name of None \<Rightarrow> dflt | Some v \<Rightarrow> v)"

definition PolicyGuard_init :: "(string \<rightharpoonup> real) \<Rightarrow> PolicyGuard" where
  "PolicyGuard_init settings =
     \<lparr>risk_threshold_l3 = getattr settings ''RISK_THRESHOLD_L3'' 0.3,
      risk_threshold_l2 = getattr settings ''RISK_THRESHOLD_L2'' 0.6,
      risk_threshold_l1 = getattr settings ''RISK_THRESHOLD_L1'' 0.8\<rparr>"

definition determine_autonomy_level :: "PolicyGuard \<Rightarrow> ActRequest \<Rightarrow> User \<Rightarrow> real \<Rightarrow> AutonomyLevel"
  where
  "determine_autonomy_level self request user risk_score =
     (if ''*'' \<in> set (scopes user) \<and> risk_score < risk_threshold_l1 self then L3_ExecuteSilent
      else if dry_run request then L2_ExecuteNotify
      else if risk_score < risk_threshold_l3 self then L3_ExecuteSilent
      else if risk_score < risk_threshold_l2 self then L2_ExecuteNotify
      else if risk_score < risk_threshold_l1 self then L1_Draft
      else L0_Ask)"

definition check_scope_permissions :: "string list \<Rightarrow> string list \<Rightarrow> bool" where
  "check_scope_permissions required_scopes' user_scopes = check_scopes required_scopes' user_scopes"

definition requires_approval :: "AutonomyLevel \<Rightarrow> real \<Rightarrow> bool" where
  "requires_approval autonomy_level risk_score =
     (if autonomy_level \<in> set [L0_Ask, L1_Draft] then True else False)"

text \<open>\<^verbatim>\<open>PolicyGuard._calculate_scope_risk\<close>: the same shape as \<open>calculate_scope_risk\<close>, with
  the branches in the order of this file of the source.\<close>

definition pg_scope_risk_step :: "string \<Rightarrow> real" where
  "pg_scope_risk_step scope =
     (if scope = ''*'' \<or> prefix ''admin.'' scope then 0.8
      else if contains ''.write'' scope \<or> contains '':write'' scope then 0.4
      else if prefix ''github.'' scope then 0.3
      else if prefix ''notion.'' scope \<or> prefix ''google.'' scope then 0.2
      else if contains ''.read'' scope \<or> contains '':read'' scope then 0.1
      else if prefix ''local.'' scope then 0.05
      else 0.15)"

fun pg_scope_risk_loop :: "string list \<Rightarrow> real \<Rightarrow> real" where
  "pg_scope_risk_loop [] risk = risk"
| "pg_scope_risk_loop (scope # scopes') risk =
     pg_scope_risk_loop scopes' (risk + pg_scope_risk_step scope)"

definition pg_calculate_scope_risk :: "string list \<Rightarrow> real" where
  "pg_calculate_scope_risk scopes' = min (pg_scope_risk_loop scopes' 0.0) 1.0"

definition scope_matches_any :: "string \<Rightarrow> string list \<Rightarrow> bool" where
  "scope_matches_any required granted_scopes = list_ex (scope_matches required) granted_scopes"

text \<open>
  \<^verbatim>\<open>_extract_required_scopes\<close> ends with \<^verbatim>\<open>list(set(required))\<close>. Python does not fix
  the order in which a set of strings is listed, so the conversion is the parameter
  \<open>list_of_set\<close>; \<open>remdups\<close> is one such conversion.
\<close>

definition extract_required_scopes :: "(string list \<Rightarrow> string list) \<Rightarrow> ActRequest \<Rightarrow> string list"
  where
  "extract_required_scopes list_of_set request =
     (let goal_lower = lower (goal request);
          required = [];
          required =
            (if contains ''notion'' goal_lower
             then (if any_kw_in [''create'', ''update'', ''write'', ''add''] goal_lower
                   then required @ [''notion.write''] else required @ [''notion.read''])
             else required);
          required =
            (if contains ''github'' goal_lower \<or> contains ''git'' goal_lower
             then (if any_kw_in [''create'', ''update'', ''push'', ''commit'', ''issue''] goal_lower
                   then required @ [''github.write''] else required @ [''github.read''])
             else required);
          required =
            (if contains ''google'' goal_lower \<or> contains ''gmail'' goal_lower
                \<or> contains ''drive'' goal_lower
             then (if any_kw_in [''send'', ''create'', ''update'', ''write''] goal_lower
                   then required @ [''google.write''] else required @ [''google.read''])
             else required);
          required =
            (if contains ''summarize'' goal_lower \<or> contains ''analyze'' goal_lower
             then required @ [''local.summarize''] else required);
          required = (if required = [] then required @ [''local.read''] else required)
      in list_of_set required)"

definition create_execution_plan :: "(string list \<Rightarrow> string list) \<Rightarrow> ActRequest \<Rightarrow> ExecutionPlan"
  where
  "create_execution_plan list_of_set request =
     (let tools = [];
          goal_lower = lower (goal request);
          tools = (if contains ''github'' goal_lower
                   then tools @ [''adapters_github.search_issues''] else tools);
          tools = (if contains ''notion'' goal_lower
                   then tools @ [''adapters_notion.create_page''] else tools);
          tools = (if contains ''summarize'' goal_lower
                   then tools @ [''local.summarize_text''] else tools);
          tools = (if contains ''google'' goal_lower \<or> contains ''gmail'' goal_lower
                   then tools @ [''adapters_google.send_email''] else tools);
          tools = (if tools = [] then [''local.process''] else tools);
          required_scopes = extract_required_scopes list_of_set request
      in \<lparr>steps = map (\<lambda>t. \<lparr>tool = t, input = []\<rparr>) tools,
          tools_used = tools,
          required_scopes = required_scopes\<rparr>)"

text \<open>The first loop of \<^verbatim>\<open>assess_risk_score\<close>: every tool is scored with no capabilities.\<close>

fun tool_risk_loop :: "string list \<Rightarrow> real \<Rightarrow> real" where
  "tool_risk_loop [] risk = risk"
| "tool_risk_loop (t # ts) risk = tool_risk_loop ts (risk + calculate_tool_risk t [])"

definition assess_risk_score :: "ExecutionPlan \<Rightarrow> User \<Rightarrow> real" where
  "assess_risk_score plan user =
     (let risk = 0.0;
          risk = tool_risk_loop (tools_used plan) risk;
          scope_risk = pg_calculate_scope_risk (required_scopes plan);
          risk = risk + scope_risk;
          trust_modifier = get_user_trust_level user;
          risk = risk * (1 - trust_modifier * 0.2);
          risk = (if length (steps plan) > 1
                  then risk + min (real (length (steps plan) - 1) * 0.1) 0.3 else risk);
          risk = min risk 1.0;
          risk = max risk 0.0
      in risk)"

text \<open>\<^verbatim>\<open>', '.join(xs)\<close>\<close>

fun join :: "string \<Rightarrow> string list \<Rightarrow> string" where
  "join sep [] = []"
| "join sep [x] = x"
| "join sep (x # y # ys) = x @ sep @ join sep (y # ys)"

definition validate_request ::
  "(string list \<Rightarrow> string list) \<Rightarrow> PolicyGuard \<Rightarrow> ActRequest \<Rightarrow> User \<Rightarrow> PolicyValidationResult"
  where
  "validate_request list_of_set self request user =
     (let required_scopes = extract_required_scopes list_of_set request;
          has_permissions = check_scope_permissions required_scopes (scopes user);
          missing_scopes =
            filter (\<lambda>scope. \<not> scope_matches_any scope (scopes user)) required_scopes
      in if \<not> has_permissions
         then \<lparr>res_allowed = False,
               res_autonomy_level = L0_Ask,
               res_risk_score = 1.0,
               res_requires_approval = True,
               res_required_scopes = required_scopes,
               res_missing_scopes = missing_scopes,
               res_reason = Some (''Missing required scopes: '' @ join '', '' missing_scopes)\<rparr>
         else let plan = create_execution_plan list_of_set request;
                  risk_score = assess_risk_score plan user;
                  autonomy_level = determine_autonomy_level self request user risk_score;
                  requires_approval = requires_approval autonomy_level risk_score
              in \<lparr>res_allowed = True,
                  res_autonomy_level = autonomy_level,
                  res_risk_score = risk_score,
                  res_requires_approval = requires_approval,
                  res_required_scopes = required_scopes,
                  res_missing_scopes = [],
                  res_reason = None\<rparr>)"

section \<open>apps/core\_api/routers/approvals.py\<close>

text \<open>
  The approval data is a Python dict with string keys; it is an association list, and
  \<open>AList.update\<close> is the assignment \<^verbatim>\<open>d[k] = v\<close> (an existing key keeps its place, a new
  key goes to the end). \<open>map_of d k\<close> is \<^verbatim>\<open>d.get(k)\<close>.
\<close>

datatype json = JNull | JStr string | JNum real | JList "string list"

type_synonym approval_data = "(string \<times> json) list"

text \<open>
  Redis holds, under each key, a value and the seconds the key has left to live. The
  value is the JSON text of the approval data; it is identified here with the dict it
  encodes (\<^verbatim>\<open>json.loads(json.dumps(d)) = d\<close>). \<^verbatim>\<open>redis.ttl\<close> answers \<open>-2\<close> for a key
  that does not exist.
\<close>

type_synonym redis = "string \<rightharpoonup> (int \<times> approval_data)"

definition redis_get :: "redis \<Rightarrow> string \<Rightarrow> approval_data option" where
  "redis_get redis key = map_option snd (redis key)"

definition redis_ttl :: "redis \<Rightarrow> string \<Rightarrow> int" where
  "redis_ttl redis key = (case redis key of None \<Rightarrow> - 2 | Some (seconds, v) \<Rightarrow> seconds)"

definition redis_setex :: "redis \<Rightarrow> string \<Rightarrow> int \<Rightarrow> approval_data \<Rightarrow> redis" where
  "redis_setex redis key seconds v = redis(key \<mapsto> (seconds, v))"

record ApprovalRequest =
  action :: string
  request_reason :: "string option"

record ApprovalResponse =
  resp_run_id :: string
  resp_status :: string
  resp_approved_at :: "json option"
  resp_approved_by :: "json option"
  resp_rejected_at :: "json option"
  resp_rejected_by :: "json option"
  resp_reason :: "json option"

text \<open>An \<^verbatim>\<open>HTTPException\<close> with its status code; the detail text and the log lines are
  left out.\<close>

datatype http_error = HTTPException nat

abbreviation HTTP_404_NOT_FOUND :: nat where "HTTP_404_NOT_FOUND \<equiv> 404"
abbreviation HTTP_400_BAD_REQUEST :: nat where "HTTP_400_BAD_REQUEST \<equiv> 400"

definition json_of_reason :: "string option \<Rightarrow> json" where
  "json_of_reason r = (case r of None \<Rightarrow> JNull | Some t \<Rightarrow> JStr t)"

text \<open>\<^verbatim>\<open>d.get(k)\<close> as a response field: a stored \<^verbatim>\<open>None\<close> and a missing key both read as
  \<^verbatim>\<open>None\<close>.\<close>

definition dict_get :: "approval_data \<Rightarrow> string \<Rightarrow> json option" where
  "dict_get d k = (case map_of d k of None \<Rightarrow> None | Some JNull \<Rightarrow> None | Some v \<Rightarrow> Some v)"

text \<open>
  \<^verbatim>\<open>approve_run\<close> and \<^verbatim>\<open>reject_run\<close> take the run id, the request body, the \<^verbatim>\<open>user_id\<close> of
  the authenticated user (the only attribute of \<^verbatim>\<open>user\<close> they read), the text of
  \<^verbatim>\<open>datetime.now(timezone.utc).isoformat()\<close> and the Redis state; they return the outcome
  and the Redis state afterwards. The Redis calls themselves are taken to succeed, so the
  \<^verbatim>\<open>except Exception\<close> clause (status 500) has no branch here; an \<^verbatim>\<open>HTTPException\<close> raised
  inside the \<^verbatim>\<open>try\<close> is re-raised as it is.
\<close>

definition approve_run ::
  "string \<Rightarrow> ApprovalRequest \<Rightarrow> string \<Rightarrow> string \<Rightarrow> redis \<Rightarrow> (http_error + ApprovalResponse) \<times> redis"
  where
  "approve_run run_id request uid now redis =
     (let key = ''approval:'' @ run_id
      in case redis_get redis key of
           None \<Rightarrow> (Inl (HTTPException HTTP_404_NOT_FOUND), redis)
         | Some approval_data \<Rightarrow>
             if map_of approval_data ''status'' \<noteq> Some (JStr ''pending'')
             then (Inl (HTTPException HTTP_400_BAD_REQUEST), redis)
             else
               let approval_data = AList.update ''status'' (JStr ''approved'') approval_data;
                   approval_data = AList.update ''approved_by'' (JStr uid) approval_data;
                   approval_data = AList.update ''approved_at'' (JStr now) approval_data;
                   approval_data =
                     AList.update ''reason'' (json_of_reason (request_reason request)) approval_data;
                   ttl = redis_ttl redis key;
                   redis = redis_setex redis key (max ttl 3600) approval_data
               in (Inr \<lparr>resp_run_id = run_id,
                         resp_status = ''approved'',
                         resp_approved_at = map_of approval_data ''approved_at'',
                         resp_approved_by = map_of approval_data ''approved_by'',
                         resp_rejected_at = None,
                         resp_rejected_by = None,
                         resp_reason = dict_get approval_data ''reason''\<rparr>,
                   redis))"

definition reject_run ::
  "string \<Rightarrow> ApprovalRequest \<Rightarrow> string \<Rightarrow> string \<Rightarrow> redis \<Rightarrow> (http_error + ApprovalResponse) \<times> redis"
  where
  "reject_run run_id request uid now redis =
     (let key = ''approval:'' @ run_id
      in case redis_get redis key of
           None \<Rightarrow> (Inl (HTTPException HTTP_404_NOT_FOUND), redis)
         | Some approval_data \<Rightarrow>
             if map_of approval_data ''status'' \<noteq> Some (JStr ''pending'')
             then (Inl (HTTPException HTTP_400_BAD_REQUEST), redis)
             else
               let approval_data = AList.update ''status'' (JStr ''rejected'') approval_data;
                   approval_data = AList.update ''rejected_by'' (JStr uid) approval_data;
                   approval_data = AList.update ''rejected_at'' (JStr now) approval_data;
                   approval_data =
                     AList.update ''reason'' (json_of_reason (request_reason request)) approval_data;
                   ttl = redis_ttl redis key;
                   redis = redis_setex redis key (max ttl 3600) approval_data
               in (Inr \<lparr>resp_run_id = run_id,
                         resp_status = ''rejected'',
                         resp_approved_at = None,
                         resp_approved_by = None,
                         resp_rejected_at = map_of approval_data ''rejected_at'',
                         resp_rejected_by = map_of approval_data ''rejected_by'',
                         resp_reason = dict_get approval_data ''reason''\<rparr>,
                   redis))"

text \<open>The stored status of a run, as \<^verbatim>\<open>check_approval_status\<close> reads it.\<close>

definition check_approval_status :: "redis \<Rightarrow> string \<Rightarrow> json option" where
  "check_approval_status redis run_id =
     (case redis_get redis (''approval:'' @ run_id) of
        None \<Rightarrow> None
      | Some approval_data \<Rightarrow>
          (case map_of approval_data ''status'' of None \<Rightarrow> Some (JStr ''pending'') | Some v \<Rightarrow> Some v))"

text \<open>The dict that a successful approval stores, and the one a rejection stores.\<close>

definition approved_data :: "approval_data \<Rightarrow> string \<Rightarrow> string \<Rightarrow> string option \<Rightarrow> approval_data" where
  "approved_data d uid now r =
     AList.update ''reason'' (json_of_reason r)
       (AList.update ''approved_at'' (JStr now)
         (AList.update ''approved_by'' (JStr uid)
           (AList.update ''status'' (JStr ''approved'') d)))"

definition rejected_data :: "approval_data \<Rightarrow> string \<Rightarrow> string \<Rightarrow> string option \<Rightarrow> approval_data" where
  "rejected_data d uid now r =
     AList.update ''reason'' (json_of_reason r)
       (AList.update ''rejected_at'' (JStr now)
         (AList.update ''rejected_by'' (JStr uid)
           (AList.update ''status'' (JStr ''rejected'') d)))"

section \<open>chad\_notifications/webhooks.py\<close>

record WebhookNotifier =
  timeout_seconds :: int
  max_retries :: int
  backoff_base :: int

definition create_webhook_notifier :: WebhookNotifier where
  "create_webhook_notifier = \<lparr>timeout_seconds = 10, max_retries = 3, backoff_base = 2\<rparr>"

text \<open>
  What one \<^verbatim>\<open>client.post\<close> does: it answers with a status code, or it raises. The three
  \<^verbatim>\<open>except\<close> clauses cover every \<^verbatim>\<open>Exception\<close>. The transport is a function from the
  number of the attempt (from 0) to what that attempt's request does.
\<close>

datatype post_outcome = Response int | TimeoutException | RequestError | OtherException

text \<open>What \<^verbatim>\<open>_send_webhook\<close> has done so far: the number of requests sent and the delays
  slept, in order.\<close>

record send_log =
  posts :: nat
  sleeps :: "int list"

text \<open>One request: \<open>True\<close> when the loop returns \<^verbatim>\<open>True\<close> from inside the \<^verbatim>\<open>try\<close>.\<close>

fun delivered :: "post_outcome \<Rightarrow> bool" where
  "delivered (Response status_code) = (status_code \<ge> 200 \<and> status_code < 300)"
| "delivered TimeoutException = False"
| "delivered RequestError = False"
| "delivered OtherException = False"

text \<open>
  \<^verbatim>\<open>await asyncio.sleep(delay)\<close> stands after the \<^verbatim>\<open>try\<close> statement, so what it raises
  leaves \<^verbatim>\<open>_send_webhook\<close>. A delay of at most 0 yields once and returns. A positive delay
  is added to the loop's clock, a float: Python converts the integer to a float first and
  raises \<^verbatim>\<open>OverflowError\<close> when it rounds beyond the largest float, that is from
  \<open>2 ^ 1024 - 2 ^ 970\<close> on. Otherwise the sleep returns, and the delay is recorded.
  The cancellation of the running task from outside is not part of this model.
\<close>

datatype py_error = OverflowError

definition float_overflow_bound :: int where
  "float_overflow_bound = 2 ^ 1024 - 2 ^ 970"

definition asyncio_sleep :: "int \<Rightarrow> send_log \<Rightarrow> py_error + send_log" where
  "asyncio_sleep delay st =
     (if delay \<le> 0 then Inr (st\<lparr>sleeps := sleeps st @ [delay]\<rparr>)
      else if float_overflow_bound \<le> delay then Inl OverflowError
      else Inr (st\<lparr>sleeps := sleeps st @ [delay]\<rparr>))"

text \<open>
  The body of \<^verbatim>\<open>for attempt in range(self.max_retries)\<close>, over the attempts that are left.
  The result is what the function returns (\<open>Inr\<close>) or the exception that leaves it
  (\<open>Inl\<close>), with what had been done by then.
\<close>

fun send_loop ::
  "WebhookNotifier \<Rightarrow> (nat \<Rightarrow> post_outcome) \<Rightarrow> nat list \<Rightarrow> send_log
     \<Rightarrow> (py_error + bool) \<times> send_log" where
  "send_loop self transport [] st = (Inr False, st)"
| "send_loop self transport (attempt # rest) st =
     (let st = st\<lparr>posts := posts st + 1\<rparr>
      in if delivered (transport attempt) then (Inr True, st)
         else if int attempt < max_retries self - 1
           then (let delay = backoff_base self ^ attempt
                 in case asyncio_sleep delay st of
                      Inl e \<Rightarrow> (Inl e, st)
                    | Inr st \<Rightarrow> send_loop self transport rest st)
           else send_loop self transport rest st)"

definition send_webhook ::
  "WebhookNotifier \<Rightarrow> (nat \<Rightarrow> post_outcome) \<Rightarrow> (py_error + bool) \<times> send_log" where
  "send_webhook self transport =
     send_loop self transport [0..<nat (max_retries self)] \<lparr>posts = 0, sleeps = []\<rparr>"

text \<open>A transport whose every answer is the status 500.\<close>

definition always_500 :: "nat \<Rightarrow> post_outcome" where
  "always_500 attempt = Response 500"

section \<open>The specification's tables\<close>

text \<open>
  The per-tool table as the specification words it: the keywords are looked for in the
  lower-cased tool name, the classes are tried in the order destructive, admin, write,
  read, \<^verbatim>\<open>local.\<close> prefix, and an unclassified name gets the default.
\<close>

definition spec_tool_base_risk :: "string \<Rightarrow> real" where
  "spec_tool_base_risk name =
     (let has = (\<lambda>kws. \<exists>kw \<in> set kws. contains kw (lower name))
      in if has [''delete'', ''remove'', ''drop'', ''destroy'', ''reset''] then 0.7
         else if has [''admin'', ''configure'', ''setup'', ''migrate''] then 0.9
         else if has [''create'', ''update'', ''write'', ''send'', ''post'', ''put''] then 0.3
         else if has [''read'', ''get'', ''fetch'', ''search'', ''list'', ''query''] then 0.1
         else if prefix ''local.'' (lower name) then 0.05
         else 0.2)"

text \<open>
  The per-scope table in the order the specification lists it: global or admin, write
  marker, \<^verbatim>\<open>github.\<close>, \<^verbatim>\<open>notion.\<close> or \<^verbatim>\<open>google.\<close>, read marker, \<^verbatim>\<open>local.\<close>, unclassified;
  summed and capped at 1.
\<close>

definition spec_scope_contribution :: "string \<Rightarrow> real" where
  "spec_scope_contribution scope =
     (if scope = ''*'' \<or> prefix ''admin.'' scope then 0.8
      else if contains ''.write'' scope \<or> contains '':write'' scope then 0.4
      else if prefix ''github.'' scope then 0.3
      else if prefix ''notion.'' scope \<or> prefix ''google.'' scope then 0.2
      else if contains ''.read'' scope \<or> contains '':read'' scope then 0.1
      else if prefix ''local.'' scope then 0.05
      else 0.15)"

definition spec_scope_risk :: "string list \<Rightarrow> real" where
  "spec_scope_risk scopes' = min (sum_list (map spec_scope_contribution scopes')) 1.0"

section \<open>Properties of the risk tables\<close>

lemma tool_name_risk_le_1: "tool_name_risk n \<le> 1"
  by (simp add: tool_name_risk_def)

lemma scope_risk_loop_sum: "scope_risk_loop xs acc = acc + sum_list (map scope_risk_step xs)"
  by (induction xs arbitrary: acc) simp_all

text \<open>
  C4. For each of the four autonomy levels and every risk score, \<open>requires_approval\<close> is
  true exactly for \<open>L0_Ask\<close> and \<open>L1_Draft\<close>; two risk scores give the same answer; and
  \<open>requires_plan_approval\<close> of \<^verbatim>\<open>autonomy.py\<close> is the same predicate of the level.
\<close>

theorem requires_approval_iff:
  "requires_approval level risk_score = (level = L0_Ask \<or> level = L1_Draft)
   \<and> requires_approval level risk_score = requires_approval level risk_score'
   \<and> requires_plan_approval level = (level = L0_Ask \<or> level = L1_Draft)
   \<and> requires_approval L0_Ask risk_score \<and> requires_approval L1_Draft risk_score
   \<and> \<not> requires_approval L2_ExecuteNotify risk_score
   \<and> \<not> requires_approval L3_ExecuteSilent risk_score"
  by (simp add: requires_approval_def requires_plan_approval_def)

theorem requires_approval_iff_witness:
  "requires_approval L1_Draft 0.7 \<and> requires_approval L1_Draft 0.1
   \<and> \<not> requires_approval L2_ExecuteNotify 0.99"
  using requires_approval_iff [where level = L1_Draft and risk_score = "0.7" and risk_score' = "0.1"]
    requires_approval_iff [where level = L2_ExecuteNotify and risk_score = "0.99" and risk_score' = 0]
  by blast

text \<open>
  C6. With an empty capability list \<open>calculate_tool_risk\<close> returns the base risk of the
  keyword table (destructive 0.7, else admin 0.9, else write 0.3, else read 0.1, else a
  \<^verbatim>\<open>local.\<close> prefix 0.05, else 0.2), for every tool name; the two values the specification
  names are 0.7 and 0.05.
\<close>

theorem calculate_tool_risk_no_capabilities:
  "calculate_tool_risk tool_name [] = spec_tool_base_risk tool_name
   \<and> calculate_tool_risk ''adapters_github.delete_issue'' [] = 0.7
   \<and> calculate_tool_risk ''local.summarize_text'' [] = 0.05"
proof -
  have "calculate_tool_risk tool_name [] = tool_name_risk (lower tool_name)"
    using tool_name_risk_le_1 [of "lower tool_name"]
    by (simp add: calculate_tool_risk_def capability_risk_def)
  moreover have "tool_name_risk (lower tool_name) = spec_tool_base_risk tool_name"
    by (simp add: tool_name_risk_def spec_tool_base_risk_def any_kw_in_def)
  moreover have "calculate_tool_risk ''adapters_github.delete_issue'' [] = 0.7"
    by (simp add: calculate_tool_risk_def lower_def lower_char_def tool_name_risk_def
        any_kw_in_def capability_risk_def)
  moreover have "calculate_tool_risk ''local.summarize_text'' [] = 0.05"
    by (simp add: calculate_tool_risk_def lower_def lower_char_def tool_name_risk_def
        any_kw_in_def capability_risk_def)
  ultimately show ?thesis by simp
qed

text \<open>A name with both an admin and a destructive keyword, in capitals: the destructive
  class wins.\<close>

theorem calculate_tool_risk_no_capabilities_witness:
  "calculate_tool_risk ''Admin.Reset_Database'' [] = 0.7
   \<and> spec_tool_base_risk ''Admin.Reset_Database'' = 0.7"
proof -
  have "lower ''Admin.Reset_Database'' = ''admin.reset_database''" by code_simp
  then have "spec_tool_base_risk ''Admin.Reset_Database'' = 0.7"
    by (simp add: spec_tool_base_risk_def)
  then show ?thesis
    using calculate_tool_risk_no_capabilities [of "''Admin.Reset_Database''"] by simp
qed

text \<open>
  C7, as the specification states it, fails: for the scope \<^verbatim>\<open>local.read\<close> the table in the
  specification's order reaches the read marker first (0.1), while \<open>calculate_scope_risk\<close>
  tests the \<^verbatim>\<open>local.\<close> prefix right after the write marker (0.05, the value its docstring
  and \<^verbatim>\<open>test_calculate_scope_risk_local\<close> give).
\<close>

theorem calculate_scope_risk_not_spec_order:
  "calculate_scope_risk [''local.read''] \<noteq> spec_scope_risk [''local.read'']"
  by (simp add: calculate_scope_risk_def scope_risk_step_def spec_scope_risk_def
      spec_scope_contribution_def)

text \<open>
  C7, amended. \<open>calculate_scope_risk\<close> is the sum over the scopes of a contribution with
  the precedence: global \<^verbatim>\<open>*\<close> or \<^verbatim>\<open>admin.\<close> prefix 0.8; else a write marker 0.4; else a
  \<^verbatim>\<open>local.\<close> prefix 0.05; else a \<^verbatim>\<open>github.\<close> prefix 0.3; else a \<^verbatim>\<open>notion.\<close> or \<^verbatim>\<open>google.\<close>
  prefix 0.2; else a read marker 0.1; else 0.15; the total is capped at 1. It is 0.8 on
  \<^verbatim>\<open>["admin.*"]\<close> and on \<^verbatim>\<open>["*"]\<close>, and never above 1.
\<close>

theorem calculate_scope_risk_sum_clamped:
  "calculate_scope_risk scopes' =
     min (\<Sum>scope\<leftarrow>scopes'.
            if scope = ''*'' \<or> prefix ''admin.'' scope then 0.8
            else if contains ''.write'' scope \<or> contains '':write'' scope then 0.4
            else if prefix ''local.'' scope then 0.05
            else if prefix ''github.'' scope then 0.3
            else if prefix ''notion.'' scope \<or> prefix ''google.'' scope then 0.2
            else if contains ''.read'' scope \<or> contains '':read'' scope then 0.1
            else 0.15) 1.0
   \<and> calculate_scope_risk scopes' \<le> 1.0
   \<and> calculate_scope_risk [''admin.*''] = 0.8
   \<and> calculate_scope_risk [''*''] = 0.8"
proof -
  have "scope_risk_step = (\<lambda>scope.
            if scope = ''*'' \<or> prefix ''admin.'' scope then 0.8
            else if contains ''.write'' scope \<or> contains '':write'' scope then 0.4
            else if prefix ''local.'' scope then 0.05
            else if prefix ''github.'' scope then 0.3
            else if prefix ''notion.'' scope \<or> prefix ''google.'' scope then 0.2
            else if contains ''.read'' scope \<or> contains '':read'' scope then 0.1
            else 0.15)"
    by (rule ext) (simp only: scope_risk_step_def)
  then have "calculate_scope_risk scopes' =
     min (\<Sum>scope\<leftarrow>scopes'.
            if scope = ''*'' \<or> prefix ''admin.'' scope then 0.8
            else if contains ''.write'' scope \<or> contains '':write'' scope then 0.4
            else if prefix ''local.'' scope then 0.05
            else if prefix ''github.'' scope then 0.3
            else if prefix ''notion.'' scope \<or> prefix ''google.'' scope then 0.2
            else if contains ''.read'' scope \<or> contains '':read'' scope then 0.1
            else 0.15) 1.0"
    by (simp only: calculate_scope_risk_def scope_risk_loop_sum)
  moreover have "calculate_scope_risk scopes' \<le> 1.0"
    by (simp add: calculate_scope_risk_def)
  moreover have "calculate_scope_risk [''admin.*''] = 0.8"
    by (simp add: calculate_scope_risk_def scope_risk_step_def)
  moreover have "calculate_scope_risk [''*''] = 0.8"
    by (simp add: calculate_scope_risk_def scope_risk_step_def)
  ultimately show ?thesis by blast
qed

theorem calculate_scope_risk_sum_clamped_witness:
  "calculate_scope_risk [''local.read'', ''github.read'', ''admin.x'', ''notion.write''] = 1
   \<and> calculate_scope_risk [''local.read'', ''github.read'', ''weird''] = 0.5"
  using
    calculate_scope_risk_sum_clamped
      [of "[''local.read'', ''github.read'', ''admin.x'', ''notion.write'']"]
    calculate_scope_risk_sum_clamped [of "[''local.read'', ''github.read'', ''weird'']"]
  by simp

text \<open>
  C9. The two scope-risk functions are meant to be one function (same docstring, same
  table), but they disagree on the scope \<^verbatim>\<open>local.read\<close>, the default scope of a request:
  \<open>calculate_scope_risk\<close> gives 0.05 and \<^verbatim>\<open>PolicyGuard._calculate_scope_risk\<close> gives 0.1.
\<close>

theorem scope_risk_implementations_differ:
  "calculate_scope_risk [''local.read''] = 0.05
   \<and> pg_calculate_scope_risk [''local.read''] = 0.1"
  by (simp add: calculate_scope_risk_def scope_risk_step_def pg_calculate_scope_risk_def
      pg_scope_risk_step_def)

section \<open>Autonomy determination\<close>

text \<open>
  C3. The precedence of \<open>determine_autonomy_level\<close>, for every request, user and risk
  score: a holder of the global scope with a risk below the L1 threshold gets
  \<open>L3_ExecuteSilent\<close>; otherwise a dry run gets \<open>L2_ExecuteNotify\<close> whatever the risk;
  otherwise the risk decides: below the L3 threshold \<open>L3_ExecuteSilent\<close>, else below the
  L2 threshold \<open>L2_ExecuteNotify\<close>, else below the L1 threshold \<open>L1_Draft\<close>, else \<open>L0_Ask\<close>.
  A guard built from settings that set no threshold has the thresholds 0.3, 0.6, 0.8.
\<close>

theorem determine_autonomy_level_precedence:
  "(''*'' \<in> set (scopes user) \<and> risk_score < risk_threshold_l1 self
      \<longrightarrow> determine_autonomy_level self request user risk_score = L3_ExecuteSilent)
   \<and> (\<not> (''*'' \<in> set (scopes user) \<and> risk_score < risk_threshold_l1 self) \<longrightarrow>
        (dry_run request
           \<longrightarrow> determine_autonomy_level self request user risk_score = L2_ExecuteNotify)
      \<and> (\<not> dry_run request \<longrightarrow>
           (risk_score < risk_threshold_l3 self
              \<longrightarrow> determine_autonomy_level self request user risk_score = L3_ExecuteSilent)
         \<and> (\<not> risk_score < risk_threshold_l3 self \<and> risk_score < risk_threshold_l2 self
              \<longrightarrow> determine_autonomy_level self request user risk_score = L2_ExecuteNotify)
         \<and> (\<not> risk_score < risk_threshold_l3 self \<and> \<not> risk_score < risk_threshold_l2 self
             \<and> risk_score < risk_threshold_l1 self
              \<longrightarrow> determine_autonomy_level self request user risk_score = L1_Draft)
         \<and> (\<not> risk_score < risk_threshold_l3 self \<and> \<not> risk_score < risk_threshold_l2 self
             \<and> \<not> risk_score < risk_threshold_l1 self
              \<longrightarrow> determine_autonomy_level self request user risk_score = L0_Ask)))
   \<and> risk_threshold_l3 (PolicyGuard_init Map.empty) = 0.3
   \<and> risk_threshold_l2 (PolicyGuard_init Map.empty) = 0.6
   \<and> risk_threshold_l1 (PolicyGuard_init Map.empty) = 0.8"
  by (simp add: determine_autonomy_level_def PolicyGuard_init_def getattr_def)

text \<open>Each branch at the default thresholds: an admin at 0.5 and at 0.8, a dry run at
  0.9, and a plain user at 0.2, 0.5, 0.7 and 0.9.\<close>

theorem determine_autonomy_level_precedence_witness:
  "determine_autonomy_level (PolicyGuard_init Map.empty)
      \<lparr>actor = ''admin'', goal = ''Write operation'', request_context = [], dry_run = False\<rparr>
      \<lparr>user_id = ''admin'', scopes = [''*'']\<rparr> 0.5 = L3_ExecuteSilent
   \<and> determine_autonomy_level (PolicyGuard_init Map.empty)
      \<lparr>actor = ''admin'', goal = ''Write operation'', request_context = [], dry_run = False\<rparr>
      \<lparr>user_id = ''admin'', scopes = [''*'']\<rparr> 0.8 = L0_Ask
   \<and> determine_autonomy_level (PolicyGuard_init Map.empty)
      \<lparr>actor = ''u'', goal = ''Delete all Notion pages'', request_context = [], dry_run = True\<rparr>
      \<lparr>user_id = ''u'', scopes = [''notion.*'']\<rparr> 0.9 = L2_ExecuteNotify
   \<and> determine_autonomy_level (PolicyGuard_init Map.empty)
      \<lparr>actor = ''u'', goal = ''Read data'', request_context = [], dry_run = False\<rparr>
      \<lparr>user_id = ''u'', scopes = [''notion.*'']\<rparr> 0.2 = L3_ExecuteSilent
   \<and> determine_autonomy_level (PolicyGuard_init Map.empty)
      \<lparr>actor = ''u'', goal = ''Read data'', request_context = [], dry_run = False\<rparr>
      \<lparr>user_id = ''u'', scopes = [''notion.*'']\<rparr> 0.5 = L2_ExecuteNotify
   \<and> determine_autonomy_level (PolicyGuard_init Map.empty)
      \<lparr>actor = ''u'', goal = ''Read data'', request_context = [], dry_run = False\<rparr>
      \<lparr>user_id = ''u'', scopes = [''notion.*'']\<rparr> 0.7 = L1_Draft
   \<and> determine_autonomy_level (PolicyGuard_init Map.empty)
      \<lparr>actor = ''u'', goal = ''Read data'', request_context = [], dry_run = False\<rparr>
      \<lparr>user_id = ''u'', scopes = [''notion.*'']\<rparr> 0.9 = L0_Ask"
proof -
  let ?g = "PolicyGuard_init Map.empty"
  let ?admin = "\<lparr>user_id = ''admin'', scopes = [''*'']\<rparr>"
  let ?u = "\<lparr>user_id = ''u'', scopes = [''notion.*'']\<rparr>"
  let ?w = "\<lparr>actor = ''admin'', goal = ''Write operation'', request_context = [], dry_run = False\<rparr>"
  let ?d = "\<lparr>actor = ''u'', goal = ''Delete all Notion pages'', request_context = [], dry_run = True\<rparr>"
  let ?r = "\<lparr>actor = ''u'', goal = ''Read data'', request_context = [], dry_run = False\<rparr>"
  have g: "risk_threshold_l3 ?g = 0.3" "risk_threshold_l2 ?g = 0.6" "risk_threshold_l1 ?g = 0.8"
    using determine_autonomy_level_precedence [where user = "?admin" and risk_score = "0.5" and self = "?g" and request = "?w"] by simp_all
  show ?thesis
    using determine_autonomy_level_precedence [where user = "?admin" and risk_score = "0.5" and self = "?g" and request = "?w"]
      determine_autonomy_level_precedence [where user = "?admin" and risk_score = "0.8" and self = "?g" and request = "?w"]
      determine_autonomy_level_precedence [where user = "?u" and risk_score = "0.9" and self = "?g" and request = "?d"]
      determine_autonomy_level_precedence [where user = "?u" and risk_score = "0.2" and self = "?g" and request = "?r"]
      determine_autonomy_level_precedence [where user = "?u" and risk_score = "0.5" and self = "?g" and request = "?r"]
      determine_autonomy_level_precedence [where user = "?u" and risk_score = "0.7" and self = "?g" and request = "?r"]
      determine_autonomy_level_precedence [where user = "?u" and risk_score = "0.9" and self = "?g" and request = "?r"]
    by (simp add: g)
qed

section \<open>Request validation\<close>

lemma check_scopes_filter:
  "check_scopes required user_scopes
     = (filter (\<lambda>scope. \<not> scope_matches_any scope user_scopes) required = [])"
  by (simp add: check_scopes_def scope_matches_any_def filter_empty_conv list_all_iff)

lemma assess_risk_score_range: "0 \<le> assess_risk_score plan user \<and> assess_risk_score plan user \<le> 1"
  by (simp add: assess_risk_score_def Let_def)

text \<open>
  C1. When some scope extracted from the request is matched by none of the user's scopes
  (exactly, through a wildcard ancestor, or through the global \<^verbatim>\<open>*\<close>), \<open>validate_request\<close>
  returns \<open>allowed = False\<close>, \<open>L0_Ask\<close>, risk score 1, \<open>requires_approval = True\<close> and, as
  missing scopes, the required scopes that nothing matches, in the order of the required
  list. The result names neither the guard's thresholds nor the assessed risk of the plan.
\<close>

theorem validate_request_denies_missing_scopes:
  assumes "\<exists>scope \<in> set (extract_required_scopes list_of_set request).
             \<not> (\<exists>granted \<in> set (scopes user). scope_matches scope granted)"
  shows "validate_request list_of_set self request user =
           \<lparr>res_allowed = False,
            res_autonomy_level = L0_Ask,
            res_risk_score = 1.0,
            res_requires_approval = True,
            res_required_scopes = extract_required_scopes list_of_set request,
            res_missing_scopes =
              filter (\<lambda>scope. \<not> (\<exists>granted \<in> set (scopes user). scope_matches scope granted))
                (extract_required_scopes list_of_set request),
            res_reason = Some (''Missing required scopes: '' @ join '', ''
              (filter (\<lambda>scope. \<not> (\<exists>granted \<in> set (scopes user). scope_matches scope granted))
                (extract_required_scopes list_of_set request)))\<rparr>"
proof -
  have "\<not> check_scope_permissions (extract_required_scopes list_of_set request) (scopes user)"
    using assms
    by (auto simp add: check_scope_permissions_def check_scopes_def list_all_iff list_ex_iff)
  moreover have "\<And>scope us. scope_matches_any scope us = (\<exists>granted \<in> set us. scope_matches scope granted)"
    by (simp add: scope_matches_any_def list_ex_iff)
  ultimately show ?thesis
    by (simp add: validate_request_def Let_def)
qed

text \<open>
  C10. Every result of \<open>validate_request\<close>, on the denial and on the allow branch, has
  \<open>allowed\<close> true exactly when \<open>missing_scopes\<close> is empty, \<open>requires_approval\<close> true exactly
  when the level is \<open>L0_Ask\<close> or \<open>L1_Draft\<close>, and a risk score between 0 and 1.
\<close>

theorem validate_request_invariants:
  "(res_allowed (validate_request list_of_set self request user)
      \<longleftrightarrow> res_missing_scopes (validate_request list_of_set self request user) = [])
   \<and> (res_requires_approval (validate_request list_of_set self request user)
      \<longleftrightarrow> res_autonomy_level (validate_request list_of_set self request user) = L0_Ask
        \<or> res_autonomy_level (validate_request list_of_set self request user) = L1_Draft)
   \<and> 0 \<le> res_risk_score (validate_request list_of_set self request user)
   \<and> res_risk_score (validate_request list_of_set self request user) \<le> 1"
proof (cases "check_scopes (extract_required_scopes list_of_set request) (scopes user)")
  case True
  then show ?thesis
    using assess_risk_score_range [of "create_execution_plan list_of_set request" user]
    by (simp add: validate_request_def Let_def check_scope_permissions_def requires_approval_def)
next
  case False
  then show ?thesis
    using check_scopes_filter [of "extract_required_scopes list_of_set request" "scopes user"]
    by (simp add: validate_request_def Let_def check_scope_permissions_def)
qed


text \<open>The end-to-end scenario of the specification: the holder of \<^verbatim>\<open>notion.read\<close> asks to
  create a Notion page. The plan's assessed risk would be 0.658; the result says 1.\<close>

theorem validate_request_denies_missing_scopes_witness:
  "(\<exists>scope \<in> set (extract_required_scopes remdups
        \<lparr>actor = ''limited_user'', goal = ''create a new Notion page with meeting notes'',
         request_context = [], dry_run = False\<rparr>).
      \<not> (\<exists>granted \<in> set (scopes \<lparr>user_id = ''limited_user'', scopes = [''notion.read'']\<rparr>).
            scope_matches scope granted))
   \<and> validate_request remdups (PolicyGuard_init Map.empty)
        \<lparr>actor = ''limited_user'', goal = ''create a new Notion page with meeting notes'',
         request_context = [], dry_run = False\<rparr>
        \<lparr>user_id = ''limited_user'', scopes = [''notion.read'']\<rparr>
      = \<lparr>res_allowed = False, res_autonomy_level = L0_Ask, res_risk_score = 1,
         res_requires_approval = True, res_required_scopes = [''notion.write''],
         res_missing_scopes = [''notion.write''],
         res_reason = Some ''Missing required scopes: notion.write''\<rparr>
   \<and> assess_risk_score (create_execution_plan remdups
        \<lparr>actor = ''limited_user'', goal = ''create a new Notion page with meeting notes'',
         request_context = [], dry_run = False\<rparr>)
        \<lparr>user_id = ''limited_user'', scopes = [''notion.read'']\<rparr> = 0.658"
proof -
  let ?req = "\<lparr>actor = ''limited_user'', goal = ''create a new Notion page with meeting notes'',
         request_context = [], dry_run = False\<rparr>"
  let ?u = "\<lparr>user_id = ''limited_user'', scopes = [''notion.read'']\<rparr>"
  have e: "extract_required_scopes remdups ?req = [''notion.write'']"
    by code_simp
  have r: "assess_risk_score (create_execution_plan remdups ?req) ?u = 0.658"
    by code_simp
  have h: "\<exists>scope \<in> set (extract_required_scopes remdups ?req).
      \<not> (\<exists>granted \<in> set (scopes ?u). scope_matches scope granted)"
    by (simp add: e scope_matches_def)
  show ?thesis
    using h validate_request_denies_missing_scopes [OF h, of "PolicyGuard_init Map.empty"] r
    by (simp add: e scope_matches_def)
qed

text \<open>A denied request (\<^verbatim>\<open>github.write\<close> is missing) and an allowed one that needs approval
  (\<open>L1_Draft\<close>, no missing scope).\<close>

theorem validate_request_invariants_witness:
  "\<not> res_allowed (validate_request remdups (PolicyGuard_init Map.empty)
        \<lparr>actor = ''limited_user'', goal = ''Delete GitHub repository and all issues'',
         request_context = [], dry_run = False\<rparr>
        \<lparr>user_id = ''limited_user'', scopes = [''local.read'']\<rparr>)
   \<and> res_requires_approval (validate_request remdups (PolicyGuard_init Map.empty)
        \<lparr>actor = ''user123'', goal = ''Create a new Notion page with meeting notes'',
         request_context = [], dry_run = False\<rparr>
        \<lparr>user_id = ''user123'', scopes = [''notion.*'', ''github.read'', ''local.*'']\<rparr>)
   \<and> res_allowed (validate_request remdups (PolicyGuard_init Map.empty)
        \<lparr>actor = ''user123'', goal = ''Create a new Notion page with meeting notes'',
         request_context = [], dry_run = False\<rparr>
        \<lparr>user_id = ''user123'', scopes = [''notion.*'', ''github.read'', ''local.*'']\<rparr>)"
proof -
  let ?g = "PolicyGuard_init Map.empty"
  let ?r1 = "validate_request remdups ?g
        \<lparr>actor = ''limited_user'', goal = ''Delete GitHub repository and all issues'',
         request_context = [], dry_run = False\<rparr>
        \<lparr>user_id = ''limited_user'', scopes = [''local.read'']\<rparr>"
  let ?r2 = "validate_request remdups ?g
        \<lparr>actor = ''user123'', goal = ''Create a new Notion page with meeting notes'',
         request_context = [], dry_run = False\<rparr>
        \<lparr>user_id = ''user123'', scopes = [''notion.*'', ''github.read'', ''local.*'']\<rparr>"
  have m1: "res_missing_scopes ?r1 = [''github.write'']"
    by code_simp
  have m2: "res_missing_scopes ?r2 = []"
    by code_simp
  have l2: "res_autonomy_level ?r2 = L1_Draft"
    by code_simp
  show ?thesis
    using validate_request_invariants [of remdups ?g
        "\<lparr>actor = ''limited_user'', goal = ''Delete GitHub repository and all issues'',
         request_context = [], dry_run = False\<rparr>"
        "\<lparr>user_id = ''limited_user'', scopes = [''local.read'']\<rparr>"]
      validate_request_invariants [of remdups ?g
        "\<lparr>actor = ''user123'', goal = ''Create a new Notion page with meeting notes'',
         request_context = [], dry_run = False\<rparr>"
        "\<lparr>user_id = ''user123'', scopes = [''notion.*'', ''github.read'', ''local.*'']\<rparr>"]
    by (simp add: m1 m2 l2)
qed

section \<open>The approval record\<close>

lemma approve_run_not_found:
  "redis (''approval:'' @ run_id) = None \<Longrightarrow>
   approve_run run_id request uid now redis = (Inl (HTTPException 404), redis)"
  by (simp add: approve_run_def redis_get_def)

lemma reject_run_not_found:
  "redis (''approval:'' @ run_id) = None \<Longrightarrow>
   reject_run run_id request uid now redis = (Inl (HTTPException 404), redis)"
  by (simp add: reject_run_def redis_get_def)

lemma approve_run_already_decided:
  "redis (''approval:'' @ run_id) = Some (ttl, d) \<Longrightarrow>
   map_of d ''status'' \<noteq> Some (JStr ''pending'') \<Longrightarrow>
   approve_run run_id request uid now redis = (Inl (HTTPException 400), redis)"
  by (simp add: approve_run_def redis_get_def)

lemma reject_run_already_decided:
  "redis (''approval:'' @ run_id) = Some (ttl, d) \<Longrightarrow>
   map_of d ''status'' \<noteq> Some (JStr ''pending'') \<Longrightarrow>
   reject_run run_id request uid now redis = (Inl (HTTPException 400), redis)"
  by (simp add: reject_run_def redis_get_def)

lemma approve_run_pending:
  "redis (''approval:'' @ run_id) = Some (ttl, d) \<Longrightarrow>
   map_of d ''status'' = Some (JStr ''pending'') \<Longrightarrow>
   snd (approve_run run_id request uid now redis)
     = redis(''approval:'' @ run_id \<mapsto> (max ttl 3600, approved_data d uid now (request_reason request)))
   \<and> (\<exists>resp. fst (approve_run run_id request uid now redis) = Inr resp
         \<and> resp_status resp = ''approved'')"
  by (simp add: approve_run_def redis_get_def redis_ttl_def redis_setex_def approved_data_def Let_def)

lemma reject_run_pending:
  "redis (''approval:'' @ run_id) = Some (ttl, d) \<Longrightarrow>
   map_of d ''status'' = Some (JStr ''pending'') \<Longrightarrow>
   snd (reject_run run_id request uid now redis)
     = redis(''approval:'' @ run_id \<mapsto> (max ttl 3600, rejected_data d uid now (request_reason request)))
   \<and> (\<exists>resp. fst (reject_run run_id request uid now redis) = Inr resp
         \<and> resp_status resp = ''rejected'')"
  by (simp add: reject_run_def redis_get_def redis_ttl_def redis_setex_def rejected_data_def Let_def)

lemma approved_data_fields:
  "map_of (approved_data d uid now r) ''status'' = Some (JStr ''approved'')"
  "map_of (approved_data d uid now r) ''approved_by'' = Some (JStr uid)"
  "map_of (approved_data d uid now r) ''approved_at'' = Some (JStr now)"
  "map_of (approved_data d uid now r) ''reason'' = Some (json_of_reason r)"
  by (simp_all add: approved_data_def update_conv')

lemma rejected_data_fields:
  "map_of (rejected_data d uid now r) ''status'' = Some (JStr ''rejected'')"
  "map_of (rejected_data d uid now r) ''rejected_by'' = Some (JStr uid)"
  "map_of (rejected_data d uid now r) ''rejected_at'' = Some (JStr now)"
  "map_of (rejected_data d uid now r) ''reason'' = Some (json_of_reason r)"
  by (simp_all add: rejected_data_def update_conv')


text \<open>
  C2. For every run id, \<open>approve_run\<close> and \<open>reject_run\<close> answer 404 when Redis has no
  record under the run's key and 400 when the stored status is not \<^verbatim>\<open>pending\<close>, and in
  both cases Redis is left as it was. On a pending record the decision succeeds, touches
  no other key, and stores the status \<^verbatim>\<open>approved\<close> (or \<^verbatim>\<open>rejected\<close>) with who decided, when,
  and the reason; after that every further approval or rejection of the run answers 400
  and changes nothing, so a record leaves \<^verbatim>\<open>pending\<close> at most once.
\<close>

theorem approval_decided_at_most_once:
  "(redis (''approval:'' @ run_id) = None \<longrightarrow>
      approve_run run_id request uid now redis = (Inl (HTTPException 404), redis)
      \<and> reject_run run_id request uid now redis = (Inl (HTTPException 404), redis))
   \<and> (\<forall>ttl d. redis (''approval:'' @ run_id) = Some (ttl, d)
          \<and> map_of d ''status'' \<noteq> Some (JStr ''pending'') \<longrightarrow>
      approve_run run_id request uid now redis = (Inl (HTTPException 400), redis)
      \<and> reject_run run_id request uid now redis = (Inl (HTTPException 400), redis))
   \<and> (\<forall>ttl d. redis (''approval:'' @ run_id) = Some (ttl, d)
          \<and> map_of d ''status'' = Some (JStr ''pending'') \<longrightarrow>
      (\<exists>resp redis' ttl' d'.
          approve_run run_id request uid now redis = (Inr resp, redis')
          \<and> redis' (''approval:'' @ run_id) = Some (ttl', d')
          \<and> (\<forall>k. k \<noteq> ''approval:'' @ run_id \<longrightarrow> redis' k = redis k)
          \<and> map_of d' ''status'' = Some (JStr ''approved'')
          \<and> map_of d' ''approved_by'' = Some (JStr uid)
          \<and> map_of d' ''approved_at'' = Some (JStr now)
          \<and> map_of d' ''reason'' = Some (json_of_reason (request_reason request))
          \<and> approve_run run_id request2 uid2 now2 redis' = (Inl (HTTPException 400), redis')
          \<and> reject_run run_id request2 uid2 now2 redis' = (Inl (HTTPException 400), redis'))
      \<and> (\<exists>resp redis' ttl' d'.
          reject_run run_id request uid now redis = (Inr resp, redis')
          \<and> redis' (''approval:'' @ run_id) = Some (ttl', d')
          \<and> (\<forall>k. k \<noteq> ''approval:'' @ run_id \<longrightarrow> redis' k = redis k)
          \<and> map_of d' ''status'' = Some (JStr ''rejected'')
          \<and> map_of d' ''rejected_by'' = Some (JStr uid)
          \<and> map_of d' ''rejected_at'' = Some (JStr now)
          \<and> map_of d' ''reason'' = Some (json_of_reason (request_reason request))
          \<and> approve_run run_id request2 uid2 now2 redis' = (Inl (HTTPException 400), redis')
          \<and> reject_run run_id request2 uid2 now2 redis' = (Inl (HTTPException 400), redis')))"
proof (intro conjI impI allI)
  assume "redis (''approval:'' @ run_id) = None"
  then show "approve_run run_id request uid now redis = (Inl (HTTPException 404), redis)"
    by (rule approve_run_not_found)
next
  assume "redis (''approval:'' @ run_id) = None"
  then show "reject_run run_id request uid now redis = (Inl (HTTPException 404), redis)"
    by (rule reject_run_not_found)
next
  fix ttl d
  assume "redis (''approval:'' @ run_id) = Some (ttl, d)
          \<and> map_of d ''status'' \<noteq> Some (JStr ''pending'')"
  then show "approve_run run_id request uid now redis = (Inl (HTTPException 400), redis)"
    by (simp add: approve_run_already_decided)
next
  fix ttl d
  assume "redis (''approval:'' @ run_id) = Some (ttl, d)
          \<and> map_of d ''status'' \<noteq> Some (JStr ''pending'')"
  then show "reject_run run_id request uid now redis = (Inl (HTTPException 400), redis)"
    by (simp add: reject_run_already_decided)
next
  fix ttl d
  let ?key = "''approval:'' @ run_id"
  let ?d' = "approved_data d uid now (request_reason request)"
  let ?redis' = "redis(?key \<mapsto> (max ttl 3600, ?d'))"
  assume a: "redis ?key = Some (ttl, d) \<and> map_of d ''status'' = Some (JStr ''pending'')"
  from a obtain resp where r: "approve_run run_id request uid now redis = (Inr resp, ?redis')"
    using approve_run_pending [of redis run_id ttl d request uid now]
    by (metis prod.collapse)
  have s: "?redis' ?key = Some (max ttl 3600, ?d')" by simp
  have n: "map_of ?d' ''status'' \<noteq> Some (JStr ''pending'')"
    by (simp add: approved_data_fields)
  have "approve_run run_id request2 uid2 now2 ?redis' = (Inl (HTTPException 400), ?redis')"
    using s n by (rule approve_run_already_decided)
  moreover have "reject_run run_id request2 uid2 now2 ?redis' = (Inl (HTTPException 400), ?redis')"
    using s n by (rule reject_run_already_decided)
  ultimately show "\<exists>resp redis' ttl' d'.
          approve_run run_id request uid now redis = (Inr resp, redis')
          \<and> redis' ?key = Some (ttl', d')
          \<and> (\<forall>k. k \<noteq> ?key \<longrightarrow> redis' k = redis k)
          \<and> map_of d' ''status'' = Some (JStr ''approved'')
          \<and> map_of d' ''approved_by'' = Some (JStr uid)
          \<and> map_of d' ''approved_at'' = Some (JStr now)
          \<and> map_of d' ''reason'' = Some (json_of_reason (request_reason request))
          \<and> approve_run run_id request2 uid2 now2 redis' = (Inl (HTTPException 400), redis')
          \<and> reject_run run_id request2 uid2 now2 redis' = (Inl (HTTPException 400), redis')"
    using r s by (intro exI [of _ resp] exI [of _ ?redis'] exI [of _ "max ttl 3600"] exI [of _ ?d'])
      (simp add: approved_data_fields)
next
  fix ttl d
  let ?key = "''approval:'' @ run_id"
  let ?d' = "rejected_data d uid now (request_reason request)"
  let ?redis' = "redis(?key \<mapsto> (max ttl 3600, ?d'))"
  assume a: "redis ?key = Some (ttl, d) \<and> map_of d ''status'' = Some (JStr ''pending'')"
  from a obtain resp where r: "reject_run run_id request uid now redis = (Inr resp, ?redis')"
    using reject_run_pending [of redis run_id ttl d request uid now]
    by (metis prod.collapse)
  have s: "?redis' ?key = Some (max ttl 3600, ?d')" by simp
  have n: "map_of ?d' ''status'' \<noteq> Some (JStr ''pending'')"
    by (simp add: rejected_data_fields)
  have "approve_run run_id request2 uid2 now2 ?redis' = (Inl (HTTPException 400), ?redis')"
    using s n by (rule approve_run_already_decided)
  moreover have "reject_run run_id request2 uid2 now2 ?redis' = (Inl (HTTPException 400), ?redis')"
    using s n by (rule reject_run_already_decided)
  ultimately show "\<exists>resp redis' ttl' d'.
          reject_run run_id request uid now redis = (Inr resp, redis')
          \<and> redis' ?key = Some (ttl', d')
          \<and> (\<forall>k. k \<noteq> ?key \<longrightarrow> redis' k = redis k)
          \<and> map_of d' ''status'' = Some (JStr ''rejected'')
          \<and> map_of d' ''rejected_by'' = Some (JStr uid)
          \<and> map_of d' ''rejected_at'' = Some (JStr now)
          \<and> map_of d' ''reason'' = Some (json_of_reason (request_reason request))
          \<and> approve_run run_id request2 uid2 now2 redis' = (Inl (HTTPException 400), redis')
          \<and> reject_run run_id request2 uid2 now2 redis' = (Inl (HTTPException 400), redis')"
    using r s by (intro exI [of _ resp] exI [of _ ?redis'] exI [of _ "max ttl 3600"] exI [of _ ?d'])
      (simp add: rejected_data_fields)
qed

text \<open>
  C8. A decision that succeeds on a pending record stores it again with the expiry
  \<open>max ttl 3600\<close> seconds, where \<open>ttl\<close> is what the key had left: at least the remaining
  time and at least one hour.
\<close>

theorem decision_keeps_ttl_floor:
  assumes "redis (''approval:'' @ run_id) = Some (ttl, d)"
    and "map_of d ''status'' = Some (JStr ''pending'')"
  shows "redis_ttl (snd (approve_run run_id request uid now redis)) (''approval:'' @ run_id)
           = max ttl 3600
       \<and> redis_ttl (snd (reject_run run_id request uid now redis)) (''approval:'' @ run_id)
           = max ttl 3600
       \<and> 3600 \<le> redis_ttl (snd (approve_run run_id request uid now redis)) (''approval:'' @ run_id)
       \<and> ttl \<le> redis_ttl (snd (approve_run run_id request uid now redis)) (''approval:'' @ run_id)
       \<and> 3600 \<le> redis_ttl (snd (reject_run run_id request uid now redis)) (''approval:'' @ run_id)
       \<and> ttl \<le> redis_ttl (snd (reject_run run_id request uid now redis)) (''approval:'' @ run_id)"
  using assms approve_run_pending [of redis run_id ttl d request uid now]
    reject_run_pending [of redis run_id ttl d request uid now]
  by (simp add: redis_ttl_def)


text \<open>An unknown run, an approval of a pending run with 120 seconds left, and a rejection
  that comes after the approval.\<close>

theorem approval_decided_at_most_once_witness:
  "approve_run ''run-2'' \<lparr>action = ''approve'', request_reason = None\<rparr> ''alice'' ''2025-01-01T10:00:00+00:00''
      [''approval:run-1'' \<mapsto> (120, [(''run_id'', JStr ''run-1''), (''status'', JStr ''pending'')])]
    = (Inl (HTTPException 404),
       [''approval:run-1'' \<mapsto> (120, [(''run_id'', JStr ''run-1''), (''status'', JStr ''pending'')])])
   \<and> approve_run ''run-1'' \<lparr>action = ''approve'', request_reason = Some ''Looks good to me''\<rparr> ''alice''
        ''2025-01-01T10:00:00+00:00''
        [''approval:run-1'' \<mapsto> (120, [(''run_id'', JStr ''run-1''), (''status'', JStr ''pending'')])]
    = (Inr \<lparr>resp_run_id = ''run-1'', resp_status = ''approved'',
            resp_approved_at = Some (JStr ''2025-01-01T10:00:00+00:00''),
            resp_approved_by = Some (JStr ''alice''),
            resp_rejected_at = None, resp_rejected_by = None,
            resp_reason = Some (JStr ''Looks good to me'')\<rparr>,
       [''approval:run-1'' \<mapsto> (3600,
          [(''run_id'', JStr ''run-1''), (''status'', JStr ''approved''),
           (''approved_by'', JStr ''alice''),
           (''approved_at'', JStr ''2025-01-01T10:00:00+00:00''),
           (''reason'', JStr ''Looks good to me'')])])
   \<and> reject_run ''run-1'' \<lparr>action = ''reject'', request_reason = Some ''Too risky''\<rparr> ''bob''
        ''2025-01-01T10:05:00+00:00''
        [''approval:run-1'' \<mapsto> (3600,
          [(''run_id'', JStr ''run-1''), (''status'', JStr ''approved''),
           (''approved_by'', JStr ''alice''),
           (''approved_at'', JStr ''2025-01-01T10:00:00+00:00''),
           (''reason'', JStr ''Looks good to me'')])]
    = (Inl (HTTPException 400),
       [''approval:run-1'' \<mapsto> (3600,
          [(''run_id'', JStr ''run-1''), (''status'', JStr ''approved''),
           (''approved_by'', JStr ''alice''),
           (''approved_at'', JStr ''2025-01-01T10:00:00+00:00''),
           (''reason'', JStr ''Looks good to me'')])])"
proof -
  let ?d0 = "[(''run_id'', JStr ''run-1''), (''status'', JStr ''pending'')]"
  let ?r0 = "[''approval:run-1'' \<mapsto> (120::int, ?d0)]"
  let ?d1 = "[(''run_id'', JStr ''run-1''), (''status'', JStr ''approved''),
           (''approved_by'', JStr ''alice''),
           (''approved_at'', JStr ''2025-01-01T10:00:00+00:00''),
           (''reason'', JStr ''Looks good to me'')]"
  let ?r1 = "[''approval:run-1'' \<mapsto> (3600::int, ?d1)]"
  have a: "approve_run ''run-2'' \<lparr>action = ''approve'', request_reason = None\<rparr> ''alice''
             ''2025-01-01T10:00:00+00:00'' ?r0 = (Inl (HTTPException 404), ?r0)"
    using approval_decided_at_most_once [of ?r0 "''run-2''"] by simp
  have b: "reject_run ''run-1'' \<lparr>action = ''reject'', request_reason = Some ''Too risky''\<rparr> ''bob''
        ''2025-01-01T10:05:00+00:00'' ?r1 = (Inl (HTTPException 400), ?r1)"
    using approval_decided_at_most_once [of ?r1 "''run-1''"] by simp
  have c: "approve_run ''run-1'' \<lparr>action = ''approve'', request_reason = Some ''Looks good to me''\<rparr>
        ''alice'' ''2025-01-01T10:00:00+00:00'' ?r0
    = (Inr \<lparr>resp_run_id = ''run-1'', resp_status = ''approved'',
            resp_approved_at = Some (JStr ''2025-01-01T10:00:00+00:00''),
            resp_approved_by = Some (JStr ''alice''),
            resp_rejected_at = None, resp_rejected_by = None,
            resp_reason = Some (JStr ''Looks good to me'')\<rparr>, ?r1)"
    by (simp add: approve_run_def redis_get_def redis_ttl_def redis_setex_def Let_def
        json_of_reason_def dict_get_def)
  show ?thesis using a b c by simp
qed

text \<open>With 120 seconds left the record is kept for 3600 seconds; with 7200 left, for 7200.\<close>

theorem decision_keeps_ttl_floor_witness:
  "redis_ttl (snd (approve_run ''run-1'' \<lparr>action = ''approve'', request_reason = None\<rparr> ''alice''
        ''2025-01-01T10:00:00+00:00''
        [''approval:run-1'' \<mapsto> (120, [(''run_id'', JStr ''run-1''), (''status'', JStr ''pending'')])]))
      ''approval:run-1'' = 3600
   \<and> redis_ttl (snd (reject_run ''run-1'' \<lparr>action = ''reject'', request_reason = None\<rparr> ''alice''
        ''2025-01-01T10:00:00+00:00''
        [''approval:run-1'' \<mapsto> (7200, [(''run_id'', JStr ''run-1''), (''status'', JStr ''pending'')])]))
      ''approval:run-1'' = 7200"
proof -
  let ?d0 = "[(''run_id'', JStr ''run-1''), (''status'', JStr ''pending'')]"
  have s: "map_of ?d0 ''status'' = Some (JStr ''pending'')" by simp
  have h1: "[''approval:run-1'' \<mapsto> (120::int, ?d0)] (''approval:'' @ ''run-1'') = Some (120, ?d0)"
    by simp
  have h2: "[''approval:run-1'' \<mapsto> (7200::int, ?d0)] (''approval:'' @ ''run-1'') = Some (7200, ?d0)"
    by simp
  show ?thesis
    using decision_keeps_ttl_floor [of "[''approval:run-1'' \<mapsto> (120::int, ?d0)]" "''run-1''" 120 ?d0
        "\<lparr>action = ''approve'', request_reason = None\<rparr>" "''alice''" "''2025-01-01T10:00:00+00:00''",
        OF h1 s]
      decision_keeps_ttl_floor [of "[''approval:run-1'' \<mapsto> (7200::int, ?d0)]" "''run-1''" 7200 ?d0
        "\<lparr>action = ''reject'', request_reason = None\<rparr>" "''alice''" "''2025-01-01T10:00:00+00:00''",
        OF h2 s]
    by simp
qed

section \<open>Webhook delivery\<close>

lemma asyncio_sleep_returns:
  "delay < float_overflow_bound \<Longrightarrow> asyncio_sleep delay st = Inr (st\<lparr>sleeps := sleeps st @ [delay]\<rparr>)"
  by (simp add: asyncio_sleep_def)

text \<open>The loop from attempt \<open>a\<close> on, when every remaining request fails and every delay to
  sleep is below the overflow bound: it runs to the end, sends one request per attempt
  and sleeps after each attempt but the last.\<close>

lemma send_loop_all_fail:
  assumes "\<forall>j. a \<le> j \<and> j < nat (max_retries self) \<longrightarrow> \<not> delivered (transport j)"
    and "\<forall>j. a \<le> j \<and> j < nat (max_retries self) - 1 \<longrightarrow> backoff_base self ^ j < float_overflow_bound"
  shows "send_loop self transport [a..<nat (max_retries self)] st =
           (Inr False, st\<lparr>posts := posts st + (nat (max_retries self) - a),
                       sleeps := sleeps st
                         @ map (\<lambda>k. backoff_base self ^ k) [a..<nat (max_retries self) - 1]\<rparr>)"
  using assms
proof (induction "nat (max_retries self) - a" arbitrary: a st)
  case 0
  then show ?case by simp
next
  case (Suc d)
  let ?n = "nat (max_retries self)"
  from Suc.hyps(2) have lt: "a < ?n" by simp
  then have nd: "\<not> delivered (transport a)" using Suc.prems by simp
  have up: "[a..<?n] = a # [Suc a..<?n]" using lt by (simp add: upt_conv_Cons)
  let ?st1 = "st\<lparr>posts := posts st + 1\<rparr>"
  let ?st2 = "if int a < max_retries self - 1
              then ?st1\<lparr>sleeps := sleeps ?st1 @ [backoff_base self ^ a]\<rparr> else ?st1"
  have ih: "send_loop self transport [Suc a..<?n] ?st2 =
           (Inr False, ?st2\<lparr>posts := posts ?st2 + (?n - Suc a),
                       sleeps := sleeps ?st2 @ map (\<lambda>k. backoff_base self ^ k) [Suc a..<?n - 1]\<rparr>)"
    using Suc.hyps(2) Suc.prems by (intro Suc.hyps(1)) auto
  show ?case
  proof (cases "int a < max_retries self - 1")
    case True
    then have a1: "a < ?n - 1" by linarith
    then have "backoff_base self ^ a < float_overflow_bound" using Suc.prems by simp
    then have step: "send_loop self transport [a..<?n] st = send_loop self transport [Suc a..<?n] ?st2"
      using nd True by (simp add: up Let_def asyncio_sleep_returns)
    have "[a..<?n - 1] = a # [Suc a..<?n - 1]" using a1 by (simp add: upt_conv_Cons)
    then show ?thesis unfolding step ih using True lt by simp
  next
    case False
    then have step: "send_loop self transport [a..<?n] st = send_loop self transport [Suc a..<?n] ?st2"
      using nd by (simp add: up Let_def)
    from False have "?n - 1 \<le> a" by linarith
    then have "[a..<?n - 1] = []" "[Suc a..<?n - 1] = []" by simp_all
    then show ?thesis unfolding step ih using False lt by simp
  qed
qed

text \<open>The loop from attempt \<open>a\<close> on, when attempt \<open>k\<close> is the first to get a 2xx answer.\<close>

lemma send_loop_first_success:
  assumes "a \<le> k" and "k < nat (max_retries self)" and "delivered (transport k)"
    and "\<forall>j. a \<le> j \<and> j < k \<longrightarrow> \<not> delivered (transport j)"
    and "\<forall>j. a \<le> j \<and> j < k \<longrightarrow> backoff_base self ^ j < float_overflow_bound"
  shows "send_loop self transport [a..<nat (max_retries self)] st =
           (Inr True, st\<lparr>posts := posts st + (k - a + 1),
                      sleeps := sleeps st @ map (\<lambda>k. backoff_base self ^ k) [a..<k]\<rparr>)"
  using assms
proof (induction "k - a" arbitrary: a st)
  case 0
  then have "a = k" by simp
  then have "[a..<nat (max_retries self)] = k # [Suc k..<nat (max_retries self)]"
    using "0.prems" by (simp add: upt_conv_Cons)
  then show ?case using "0.prems" \<open>a = k\<close> by (simp add: Let_def)
next
  case (Suc d)
  let ?n = "nat (max_retries self)"
  from Suc.hyps(2) have lt: "a < k" by simp
  then have nd: "\<not> delivered (transport a)" using Suc.prems by simp
  have fb: "backoff_base self ^ a < float_overflow_bound" using lt Suc.prems by simp
  have up: "[a..<?n] = a # [Suc a..<?n]" using lt Suc.prems by (simp add: upt_conv_Cons)
  have sl: "int a < max_retries self - 1" using lt Suc.prems by linarith
  let ?st1 = "st\<lparr>posts := posts st + 1\<rparr>"
  let ?st2 = "?st1\<lparr>sleeps := sleeps ?st1 @ [backoff_base self ^ a]\<rparr>"
  have ih: "send_loop self transport [Suc a..<?n] ?st2 =
           (Inr True, ?st2\<lparr>posts := posts ?st2 + (k - Suc a + 1),
                      sleeps := sleeps ?st2 @ map (\<lambda>k. backoff_base self ^ k) [Suc a..<k]\<rparr>)"
    using Suc.hyps(2) Suc.prems by (intro Suc.hyps(1)) auto
  have step: "send_loop self transport [a..<?n] st = send_loop self transport [Suc a..<?n] ?st2"
    using nd sl fb by (simp add: up Let_def asyncio_sleep_returns)
  have "[a..<k] = a # [Suc a..<k]" using lt by (simp add: upt_conv_Cons)
  then show ?case unfolding step ih using lt by simp
qed

lemma bound_pos: "2 < float_overflow_bound" "1 < float_overflow_bound"
  by (simp_all add: float_overflow_bound_def)

text \<open>
  C5, as the specification states it, fails: with \<open>max_retries = 3\<close>, the base \<open>10 ^ 400\<close>
  and the answer 500 every time, the first failed attempt is followed by a sleep of 1
  second, and after the second the delay \<open>10 ^ 400\<close> cannot be turned into a float:
  \<^verbatim>\<open>OverflowError\<close> leaves the function after 2 requests, where the claim has \<open>False\<close>
  after 3.
\<close>

theorem send_webhook_overflow_escapes:
  "send_webhook \<lparr>timeout_seconds = 10, max_retries = 3, backoff_base = 10 ^ 400\<rparr> always_500
     = (Inl OverflowError, \<lparr>posts = 2, sleeps = [1]\<rparr>)"
proof -
  have u: "[0..<3] = [0, Suc 0, 2]" by (simp add: upt_conv_Cons)
  show ?thesis
    by (simp add: send_webhook_def u Let_def asyncio_sleep_def float_overflow_bound_def
        always_500_def)
qed

text \<open>
  C5, amended. \<^verbatim>\<open>_send_webhook\<close> sends at most \<open>max_retries\<close> requests, and as long as every
  delay it has to sleep is below the overflow bound of a float it returns a boolean: if
  attempt \<open>k\<close> (from 0) is the first with a 2xx answer, \<open>True\<close> after \<open>k + 1\<close> requests,
  having slept \<open>backoff_base ^ 0, ..., backoff_base ^ (k - 1)\<close>; if no attempt succeeds,
  \<open>False\<close> after \<open>max_retries\<close> requests, with a sleep after every attempt but the last.
  A request succeeds only with a status from 200 to 299: a timeout, a transport error, any
  other exception of the request and any other status are failed attempts and do not
  leave the function. With the answers 500, 500, 200, \<open>max_retries \<ge> 3\<close> and a base below
  the bound the result is \<open>True\<close> after 3 requests; with 500 always and \<open>max_retries = 2\<close>
  it is \<open>False\<close> after 2; the default notifier, with timeouts only, sleeps 1 and 2 seconds.
\<close>

theorem send_webhook_retries:
  "(k < nat (max_retries self) \<and> delivered (transport k)
       \<and> (\<forall>j < k. \<not> delivered (transport j))
       \<and> (\<forall>j < k. backoff_base self ^ j < float_overflow_bound) \<longrightarrow>
      send_webhook self transport =
        (Inr True,
         \<lparr>posts = k + 1, sleeps = map (\<lambda>attempt. backoff_base self ^ attempt) [0..<k]\<rparr>))
   \<and> ((\<forall>j < nat (max_retries self). \<not> delivered (transport j))
       \<and> (\<forall>j < nat (max_retries self) - 1. backoff_base self ^ j < float_overflow_bound) \<longrightarrow>
      send_webhook self transport =
        (Inr False,
         \<lparr>posts = nat (max_retries self),
          sleeps = map (\<lambda>attempt. backoff_base self ^ attempt)
                     [0..<nat (max_retries self) - 1]\<rparr>))
   \<and> (delivered outcome \<longleftrightarrow> (\<exists>c. outcome = Response c \<and> 200 \<le> c \<and> c < 300))
   \<and> (3 \<le> max_retries self \<and> backoff_base self < float_overflow_bound \<longrightarrow>
      send_webhook self (\<lambda>attempt. Response ([500, 500, 200] ! attempt)) =
        (Inr True, \<lparr>posts = 3, sleeps = [1, backoff_base self]\<rparr>))
   \<and> (max_retries self = 2 \<longrightarrow>
      send_webhook self always_500 = (Inr False, \<lparr>posts = 2, sleeps = [1]\<rparr>))
   \<and> send_webhook create_webhook_notifier (\<lambda>attempt. TimeoutException) =
        (Inr False, \<lparr>posts = 3, sleeps = [1, 2]\<rparr>)"
proof (intro conjI impI)
  assume a: "k < nat (max_retries self) \<and> delivered (transport k)
       \<and> (\<forall>j < k. \<not> delivered (transport j))
       \<and> (\<forall>j < k. backoff_base self ^ j < float_overflow_bound)"
  show "send_webhook self transport =
        (Inr True,
         \<lparr>posts = k + 1, sleeps = map (\<lambda>attempt. backoff_base self ^ attempt) [0..<k]\<rparr>)"
    unfolding send_webhook_def
    using a send_loop_first_success [of 0 k self transport "\<lparr>posts = 0, sleeps = []\<rparr>"]
    by simp
next
  assume a: "(\<forall>j < nat (max_retries self). \<not> delivered (transport j))
       \<and> (\<forall>j < nat (max_retries self) - 1. backoff_base self ^ j < float_overflow_bound)"
  show "send_webhook self transport =
        (Inr False,
         \<lparr>posts = nat (max_retries self),
          sleeps = map (\<lambda>attempt. backoff_base self ^ attempt)
                     [0..<nat (max_retries self) - 1]\<rparr>)"
    unfolding send_webhook_def
    using a send_loop_all_fail [of 0 self transport "\<lparr>posts = 0, sleeps = []\<rparr>"]
    by simp
next
  show "delivered outcome \<longleftrightarrow> (\<exists>c. outcome = Response c \<and> 200 \<le> c \<and> c < 300)"
    by (cases outcome) auto
next
  assume a: "3 \<le> max_retries self \<and> backoff_base self < float_overflow_bound"
  let ?t = "\<lambda>attempt. Response ([500, 500, 200] ! attempt)"
  have "\<forall>j. 0 \<le> j \<and> j < 2 \<longrightarrow> \<not> delivered (?t j)"
    by (auto simp add: less_Suc_eq numeral_2_eq_2)
  moreover have "\<forall>j. 0 \<le> j \<and> j < 2 \<longrightarrow> backoff_base self ^ j < float_overflow_bound"
    using a bound_pos by (auto simp add: less_Suc_eq numeral_2_eq_2)
  moreover have "delivered (?t 2)" by simp
  moreover have "[0..<2] = [0, Suc 0]" by (simp add: upt_conv_Cons)
  moreover have "2 < nat (max_retries self)" using a by linarith
  ultimately show "send_webhook self ?t = (Inr True, \<lparr>posts = 3, sleeps = [1, backoff_base self]\<rparr>)"
    unfolding send_webhook_def
    using send_loop_first_success [of 0 2 self ?t "\<lparr>posts = 0, sleeps = []\<rparr>"]
    by simp
next
  assume a: "max_retries self = 2"
  have "[0..<Suc 0] = [0]" by simp
  then show "send_webhook self always_500 = (Inr False, \<lparr>posts = 2, sleeps = [1]\<rparr>)"
    unfolding send_webhook_def
    using a bound_pos send_loop_all_fail [of 0 self always_500 "\<lparr>posts = 0, sleeps = []\<rparr>"]
    by (simp add: always_500_def)
next
  have "[0..<2] = [0, Suc 0]" by (simp add: upt_conv_Cons)
  moreover have "\<forall>j. 0 \<le> j \<and> j < 2 \<longrightarrow> (2::int) ^ j < float_overflow_bound"
    using bound_pos by (auto simp add: less_Suc_eq numeral_2_eq_2)
  ultimately show "send_webhook create_webhook_notifier (\<lambda>attempt. TimeoutException) =
        (Inr False, \<lparr>posts = 3, sleeps = [1, 2]\<rparr>)"
    unfolding send_webhook_def
    using send_loop_all_fail [of 0 create_webhook_notifier "\<lambda>attempt. TimeoutException"
        "\<lparr>posts = 0, sleeps = []\<rparr>"]
    by (simp add: create_webhook_notifier_def)
qed

text \<open>A transport error, a 503 and then a 204 with base 3; four exceptions with base 2; and
  the two runs of \<^verbatim>\<open>test_queue.py\<close>.\<close>

theorem send_webhook_retries_witness:
  "send_webhook \<lparr>timeout_seconds = 5, max_retries = 4, backoff_base = 3\<rparr>
      (\<lambda>attempt. if attempt = 0 then RequestError else if attempt = 1 then Response 503
                 else Response 204)
     = (Inr True, \<lparr>posts = 3, sleeps = [1, 3]\<rparr>)
   \<and> send_webhook \<lparr>timeout_seconds = 5, max_retries = 4, backoff_base = 2\<rparr>
      (\<lambda>attempt. OtherException)
     = (Inr False, \<lparr>posts = 4, sleeps = [1, 2, 4]\<rparr>)
   \<and> send_webhook \<lparr>timeout_seconds = 5, max_retries = 3, backoff_base = 1\<rparr>
      (\<lambda>attempt. Response ([500, 500, 200] ! attempt))
     = (Inr True, \<lparr>posts = 3, sleeps = [1, 1]\<rparr>)
   \<and> send_webhook \<lparr>timeout_seconds = 5, max_retries = 2, backoff_base = 1\<rparr> always_500
     = (Inr False, \<lparr>posts = 2, sleeps = [1]\<rparr>)"
proof -
  let ?t = "\<lambda>attempt::nat. if attempt = 0 then RequestError else if attempt = 1 then Response 503
                 else Response 204"
  have u2: "[0..<2] = [0, Suc 0]" and u3: "[0..<3] = [0, Suc 0, 2]"
    by (simp_all add: upt_conv_Cons)
  have f3: "\<forall>j<2. (3::int) ^ j < float_overflow_bound"
    by (auto simp add: less_Suc_eq numeral_2_eq_2 float_overflow_bound_def)
  have f2: "\<forall>j<3. (2::int) ^ j < float_overflow_bound"
    by (auto simp add: less_Suc_eq numeral_3_eq_3 float_overflow_bound_def)
  have "\<forall>j<2. \<not> delivered (?t j)" by simp
  then have a: "send_webhook \<lparr>timeout_seconds = 5, max_retries = 4, backoff_base = 3\<rparr> ?t
     = (Inr True, \<lparr>posts = 3, sleeps = [1, 3]\<rparr>)"
    using f3 send_webhook_retries [of 2 "\<lparr>timeout_seconds = 5, max_retries = 4, backoff_base = 3\<rparr>" ?t]
    by (simp add: u2)
  have b: "send_webhook \<lparr>timeout_seconds = 5, max_retries = 4, backoff_base = 2\<rparr>
      (\<lambda>attempt. OtherException) = (Inr False, \<lparr>posts = 4, sleeps = [1, 2, 4]\<rparr>)"
    using f2 send_webhook_retries [of 0 "\<lparr>timeout_seconds = 5, max_retries = 4, backoff_base = 2\<rparr>"
        "\<lambda>attempt. OtherException"]
    by (simp add: u3)
  have c: "send_webhook \<lparr>timeout_seconds = 5, max_retries = 3, backoff_base = 1\<rparr>
      (\<lambda>attempt. Response ([500, 500, 200] ! attempt)) = (Inr True, \<lparr>posts = 3, sleeps = [1, 1]\<rparr>)"
    using bound_pos send_webhook_retries [of 0 "\<lparr>timeout_seconds = 5, max_retries = 3, backoff_base = 1\<rparr>"]
    by simp
  have d: "send_webhook \<lparr>timeout_seconds = 5, max_retries = 2, backoff_base = 1\<rparr> always_500
      = (Inr False, \<lparr>posts = 2, sleeps = [1]\<rparr>)"
    using send_webhook_retries [of 0 "\<lparr>timeout_seconds = 5, max_retries = 2, backoff_base = 1\<rparr>"]
    by simp
  show ?thesis using a b c d by simp
qed

end
